theory Spec2Isabelle
  imports Main
begin

section \<open>Python values and exceptions\<close>

text \<open>
  The metadata methods of \<^verbatim>\<open>Table\<close> (\<^verbatim>\<open>fate_arch/data_table/base.py\<close>, lines 137 to 191)
  handle values that come out of the codec, so a small universe of builtin Python values
  is enough: \<^verbatim>\<open>None\<close>, booleans, integers, strings, lists and dicts (a dict as an association
  list in insertion order).
\<close>

datatype pyval =
    PNone
  | PBool bool
  | PInt int
  | PStr string
  | PList "pyval list"
  | PDict "(pyval \<times> pyval) list"

text \<open>
  Exceptions are values. All of them are subclasses of Python's \<^verbatim>\<open>Exception\<close>;
  \<open>Exception msg\<close> is the plain \<^verbatim>\<open>Exception(msg)\<close> raised on line 181,
  \<open>DecodeError\<close> stands for whatever the codec raises on a blob it cannot decode and
  \<open>OperationalError\<close> for a failure reported by the catalog store.
\<close>

datatype error =
    Exception string
  | AttributeError string
  | UnboundLocalError string
  | TypeError
  | DecodeError
  | OperationalError string

text \<open>Truth value testing, as \<^verbatim>\<open>if x:\<close> and \<^verbatim>\<open>not x\<close> do it.\<close>

fun truthy :: "pyval \<Rightarrow> bool" where
  "truthy PNone = False"
| "truthy (PBool b) = b"
| "truthy (PInt i) = (i \<noteq> 0)"
| "truthy (PStr s) = (s \<noteq> [])"
| "truthy (PList xs) = (xs \<noteq> [])"
| "truthy (PDict kvs) = (kvs \<noteq> [])"

text \<open>\<^verbatim>\<open>len(x)\<close>: defined on strings, lists and dicts, a \<^verbatim>\<open>TypeError\<close> elsewhere.\<close>

fun py_len :: "pyval \<Rightarrow> error + nat" where
  "py_len (PStr s) = Inr (length s)"
| "py_len (PList xs) = Inr (length xs)"
| "py_len (PDict kvs) = Inr (length kvs)"
| "py_len PNone = Inl TypeError"
| "py_len (PBool b) = Inl TypeError"
| "py_len (PInt i) = Inl TypeError"

text \<open>
  The source calls two methods on decoded values: \<^verbatim>\<open>updata\<close> (line 169) and
  \<^verbatim>\<open>append\<close> (line 175). Attribute lookup comes first and yields the bound method,
  here a function from the argument to the receiver after the call.
  None of the builtin types has an attribute named \<^verbatim>\<open>updata\<close> (the dict method
  that overlays a mapping is spelled \<^verbatim>\<open>update\<close>), so that lookup raises
  \<^verbatim>\<open>AttributeError\<close> whatever the receiver is; \<^verbatim>\<open>append\<close> exists on lists only.
\<close>

fun getattr_updata :: "pyval \<Rightarrow> error + (pyval \<Rightarrow> pyval)" where
  "getattr_updata obj = Inl (AttributeError ''updata'')"

fun getattr_append :: "pyval \<Rightarrow> error + (pyval \<Rightarrow> pyval)" where
  "getattr_append (PList xs) = Inr (\<lambda>x. PList (xs @ [x]))"
| "getattr_append PNone = Inl (AttributeError ''append'')"
| "getattr_append (PBool b) = Inl (AttributeError ''append'')"
| "getattr_append (PInt i) = Inl (AttributeError ''append'')"
| "getattr_append (PStr s) = Inl (AttributeError ''append'')"
| "getattr_append (PDict kvs) = Inl (AttributeError ''append'')"

section \<open>The codec and the catalog store\<close>

text \<open>
  Modelled from the spec: \<^verbatim>\<open>serialize_b64\<close> and \<^verbatim>\<open>deserialize_b64\<close> are imported from
  \<^verbatim>\<open>arch.api.utils.core_utils\<close>, which is not part of the sources. The spec describes
  them as two pure functions, \<^verbatim>\<open>encode(value) -> bytes\<close> and \<^verbatim>\<open>decode(bytes) -> value\<close>,
  where decoding a corrupt blob fails. A stored blob is therefore either empty (a NULL or
  empty column, falsy in Python), the encoding of a value, or a non-empty byte string that
  does not decode.
\<close>

datatype blob = Empty | Encoded pyval | Corrupt

fun blob_truthy :: "blob \<Rightarrow> bool" where
  "blob_truthy Empty = False"
| "blob_truthy (Encoded v) = True"
| "blob_truthy Corrupt = True"

definition serialize_b64 :: "pyval \<Rightarrow> blob" where
  "serialize_b64 v = Encoded v"

fun deserialize_b64 :: "blob \<Rightarrow> error + pyval" where
  "deserialize_b64 (Encoded v) = Inr v"
| "deserialize_b64 Empty = Inl DecodeError"
| "deserialize_b64 Corrupt = Inl DecodeError"

text \<open>
  A row of \<^verbatim>\<open>MachineLearningDataSchema\<close>, with the columns the methods touch. The key
  columns \<^verbatim>\<open>f_table_name\<close> and \<^verbatim>\<open>f_namespace\<close> index the catalog.
\<close>

record row =
  f_schema :: blob
  f_part_of_data :: blob
  f_count :: int
  f_update_time :: int

type_synonym catalog = "string \<times> string \<rightharpoonup> row"

text \<open>The two attributes of a table the metadata methods read.\<close>

record table =
  self_name :: string
  self_namespace :: string

text \<open>
  Modelled from the spec: the model class \<^verbatim>\<open>MachineLearningDataSchema\<close> of
  \<^verbatim>\<open>fate_flow.db.db_models\<close> is not part of the sources. The spec gives the store as
  unique on \<^verbatim>\<open>(f_table_name, f_namespace)\<close>, so the query
  \<^verbatim>\<open>select().where(f_table_name == self._name, f_namespace == self._namespace)\<close> has no
  row or one row (\<^verbatim>\<open>schema[0]\<close>), \<^verbatim>\<open>save\<close> writes the row object back under its key, and
  the delete statement removes the row of that key. The store is taken to answer; only
  the delete statement is given a way to fail, since that is what \<^verbatim>\<open>destroy_schema\<close> handles.
\<close>

definition select_where :: "table \<Rightarrow> catalog \<Rightarrow> row option" where
  "select_where self db = db (self_name self, self_namespace self)"

definition row_save :: "table \<Rightarrow> row \<Rightarrow> catalog \<Rightarrow> catalog" where
  "row_save self schema db = db((self_name self, self_namespace self) \<mapsto> schema)"

definition delete_where :: "error option \<Rightarrow> table \<Rightarrow> catalog \<Rightarrow> error + catalog" where
  "delete_where fault self db =
     (case fault of
        Some e \<Rightarrow> Inl e
      | None \<Rightarrow> Inr (db((self_name self, self_namespace self) := None)))"

section \<open>get\_schema (lines 137 to 153)\<close>

text \<open>The body of the \<^verbatim>\<open>try\<close> block, lines 145 to 150, on the row fetched.\<close>

definition get_schema_try :: "row \<Rightarrow> string \<Rightarrow> pyval \<Rightarrow> error + pyval" where
  "get_schema_try schema type schema_data =
     (if type = ''schema'' then deserialize_b64 (f_schema schema)
      else if type = ''data'' then deserialize_b64 (f_part_of_data schema)
      else if type = ''count'' then Inr (PInt (f_count schema))
      else Inr schema_data)"

text \<open>
  \<^verbatim>\<open>schema_data\<close> starts as \<^verbatim>\<open>{}\<close>; the bare \<^verbatim>\<open>except:\<close> of line 151 turns every
  exception of the block into \<^verbatim>\<open>None\<close>.
\<close>

definition get_schema :: "table \<Rightarrow> string \<Rightarrow> catalog \<Rightarrow> error + pyval" where
  "get_schema self type db =
     (case select_where self db of
        None \<Rightarrow> Inr (PDict [])
      | Some schema \<Rightarrow>
          (case get_schema_try schema type (PDict []) of
             Inl e \<Rightarrow> Inr PNone
           | Inr schema_data \<Rightarrow> Inr schema_data))"

section \<open>save\_schema (lines 155 to 183)\<close>

text \<open>
  Lines 167 to 170. The local \<^verbatim>\<open>_schema_data\<close> (here \<open>local_schema_data\<close>) is
  bound only when the stored blob is truthy; reading it unbound on line 169 raises
  \<^verbatim>\<open>UnboundLocalError\<close>.
\<close>

definition save_schema_info :: "row \<Rightarrow> pyval \<Rightarrow> error + row" where
  "save_schema_info schema schema_data =
     (case (if blob_truthy (f_schema schema)
            then (case deserialize_b64 (f_schema schema) of
                    Inl e \<Rightarrow> Inl e
                  | Inr v \<Rightarrow> Inr (Some v))
            else Inr None) of
        Inl e \<Rightarrow> Inl e
      | Inr None \<Rightarrow> Inl (UnboundLocalError ''_schema_data'')
      | Inr (Some local_schema_data) \<Rightarrow>
          (case getattr_updata local_schema_data of
             Inl e \<Rightarrow> Inl e
           | Inr bound_updata \<Rightarrow>
               Inr (schema\<lparr>f_schema := serialize_b64 (bound_updata schema_data)\<rparr>)))"

text \<open>
  Lines 172 to 176. The slice of line 175 is appended, as one element, to the decoded local
  list, which is not used again; what line 176 stores is the encoding of
  \<^verbatim>\<open>party_of_data[:200]\<close>.
\<close>

definition save_data :: "row \<Rightarrow> pyval list \<Rightarrow> error + row" where
  "save_data schema party_of_data =
     (if party_of_data \<noteq> [] then
        (case deserialize_b64 (f_part_of_data schema) of
           Inl e \<Rightarrow> Inl e
         | Inr local_f_part_of_data \<Rightarrow>
             (case py_len local_f_part_of_data of
                Inl e \<Rightarrow> Inl e
              | Inr n \<Rightarrow>
                  if n < 200 then
                    (case getattr_append local_f_part_of_data of
                       Inl e \<Rightarrow> Inl e
                     | Inr bound_append \<Rightarrow>
                         (let local_f_part_of_data' = bound_append (PList (take (200 - n) party_of_data))
                          in Inr (schema\<lparr>f_part_of_data :=
                                     serialize_b64 (PList (take 200 party_of_data))\<rparr>)))
                  else Inr schema))
      else Inr schema)"

text \<open>Lines 178 and 179.\<close>

definition save_count :: "row \<Rightarrow> int \<Rightarrow> row" where
  "save_count schema count =
     (if count \<noteq> 0 then schema\<lparr>f_count := f_count schema + count\<rparr> else schema)"

text \<open>
  The whole method. The arguments default to \<^verbatim>\<open>None\<close>, \<^verbatim>\<open>None\<close> and \<^verbatim>\<open>0\<close>;
  lines 157 to 160 replace a falsy \<^verbatim>\<open>schema_data\<close> by \<^verbatim>\<open>{}\<close> and a falsy
  \<^verbatim>\<open>party_of_data\<close> by \<^verbatim>\<open>[]\<close>. \<open>now\<close> is what \<^verbatim>\<open>current_timestamp()\<close> returns on
  line 182. The row object is changed in memory and reaches the store only through
  \<^verbatim>\<open>save\<close> on line 183, so an exception before that line leaves the catalog as it was.
  The message of line 181 formats the namespace twice.
\<close>

definition save_schema ::
  "table \<Rightarrow> (pyval \<times> pyval) list option \<Rightarrow> pyval list option \<Rightarrow> int \<Rightarrow> int \<Rightarrow> catalog
     \<Rightarrow> (error + unit) \<times> catalog" where
  "save_schema self schema_data0 party_of_data0 count now db =
     (let schema_data = (case schema_data0 of
                           None \<Rightarrow> []
                         | Some d \<Rightarrow> if \<not> truthy (PDict d) then [] else d);
          party_of_data = (case party_of_data0 of
                             None \<Rightarrow> []
                           | Some l \<Rightarrow> if \<not> truthy (PList l) then [] else l)
      in
        (case select_where self db of
           Some schema \<Rightarrow>
             (case save_schema_info schema (PDict schema_data) of
                Inl e \<Rightarrow> (Inl e, db)
              | Inr schema1 \<Rightarrow>
                  (case save_data schema1 party_of_data of
                     Inl e \<Rightarrow> (Inl e, db)
                   | Inr schema2 \<Rightarrow>
                       (Inr (),
                        row_save self ((save_count schema2 count)\<lparr>f_update_time := now\<rparr>) db)))
         | None \<Rightarrow>
             (Inl (Exception (''please create table '' @ self_namespace self @ '' ''
                               @ self_namespace self @ '' before useing'')), db)))"


text \<open>
  A sequence of calls, each given as its arguments and its timestamp. A caller that goes
  on after a failed call finds the catalog the failed call left.
\<close>

type_synonym call = "(pyval \<times> pyval) list option \<times> pyval list option \<times> int \<times> int"

fun save_schema_calls :: "table \<Rightarrow> call list \<Rightarrow> catalog \<Rightarrow> catalog" where
  "save_schema_calls self [] db = db"
| "save_schema_calls self ((sd, pd, c, now) # cs) db =
     save_schema_calls self cs (snd (save_schema self sd pd c now db))"

section \<open>destroy\_schema (lines 185 to 191)\<close>

text \<open>
  The state is the catalog and the lines written to \<^verbatim>\<open>stat_logger\<close>, each kept as the
  three values formatted into the message of line 191. \<open>fault\<close> is the exception the
  store raises while executing the delete statement, if it raises one.
\<close>

type_synonym logline = "string \<times> string \<times> error"

definition destroy_schema ::
  "table \<Rightarrow> error option \<Rightarrow> catalog \<times> logline list \<Rightarrow> (error + unit) \<times> catalog \<times> logline list" where
  "destroy_schema self fault st =
     (case delete_where fault self (fst st) of
        Inr db' \<Rightarrow> (Inr (), db', snd st)
      | Inl e \<Rightarrow> (Inr (), fst st, snd st @ [(self_namespace self, self_name self, e)]))"

section \<open>A concrete catalog\<close>

text \<open>
  One table \<^verbatim>\<open>('t', 'ns')\<close> whose entry holds the encoded empty mapping as schema, the
  encoded list \<^verbatim>\<open>[1]\<close> as sample, count 0 and update time 0; and a catalog without
  any entry.
\<close>

definition example_table :: table where
  "example_table = \<lparr>self_name = ''t'', self_namespace = ''ns''\<rparr>"

definition example_row :: row where
  "example_row =
     \<lparr>f_schema = Encoded (PDict []), f_part_of_data = Encoded (PList [PInt 1]),
      f_count = 0, f_update_time = 0\<rparr>"

definition example_catalog :: catalog where
  "example_catalog = [(''t'', ''ns'') \<mapsto> example_row]"

definition corrupt_catalog :: catalog where
  "corrupt_catalog = [(''t'', ''ns'') \<mapsto> example_row\<lparr>f_schema := Corrupt\<rparr>]"

definition empty_catalog :: catalog where
  "empty_catalog = Map.empty"

section \<open>What save\_schema does on an existing entry\<close>

text \<open>
  Lines 167 to 169 raise on every row: with an empty schema column the local is unbound,
  a corrupt one fails to decode (outside any \<^verbatim>\<open>try\<close>), and a decoded value has no
  \<^verbatim>\<open>updata\<close>.
\<close>

lemma save_schema_info_raises:
  "save_schema_info schema schema_data =
     Inl (case f_schema schema of
            Empty \<Rightarrow> UnboundLocalError ''_schema_data''
          | Encoded v \<Rightarrow> AttributeError ''updata''
          | Corrupt \<Rightarrow> DecodeError)"
  by (cases "f_schema schema") (simp_all add: save_schema_info_def)

text \<open>So no call reaches \<^verbatim>\<open>save\<close> on line 183: the catalog is never written.\<close>

lemma save_schema_catalog_unchanged:
  "snd (save_schema self sd pd c now db) = db"
  by (simp add: save_schema_def Let_def save_schema_info_raises split: option.splits)

lemma save_schema_existing_raises:
  assumes "select_where self db = Some r"
  shows "save_schema self sd pd c now db =
           (Inl (case f_schema r of
                   Empty \<Rightarrow> UnboundLocalError ''_schema_data''
                 | Encoded v \<Rightarrow> AttributeError ''updata''
                 | Corrupt \<Rightarrow> DecodeError), db)"
  using assms by (simp add: save_schema_def Let_def save_schema_info_raises)

lemma save_schema_never_returns:
  "fst (save_schema self sd pd c now db) \<noteq> Inr ()"
  by (simp add: save_schema_def Let_def save_schema_info_raises split: option.splits)


lemma save_schema_calls_unchanged: "save_schema_calls self cs db = db"
proof (induction cs arbitrary: db)
  case Nil
  show ?case by simp
next
  case (Cons c cs)
  obtain sd pd n now where c: "c = (sd, pd, n, now)"
    by (cases c) auto
  show ?case
    by (simp add: c save_schema_catalog_unchanged Cons.IH)
qed

lemma example_select: "select_where example_table example_catalog = Some example_row"
  by (simp add: select_where_def example_table_def example_catalog_def)

subsection \<open>The blocks after line 170, each on its own\<close>


lemma save_data_full:
  assumes "deserialize_b64 (f_part_of_data schema) = Inr (PList xs)" and "200 \<le> length xs"
  shows "save_data schema party_of_data = Inr schema"
  using assms by (simp add: save_data_def)

lemma save_data_stores_front:
  assumes "deserialize_b64 (f_part_of_data schema) = Inr (PList xs)" and "length xs < 200"
    and "party_of_data \<noteq> []"
  shows "save_data schema party_of_data =
           Inr (schema\<lparr>f_part_of_data := Encoded (PList (take 200 party_of_data))\<rparr>)"
  using assms by (simp add: save_data_def serialize_b64_def)

lemma save_data_cap:
  assumes "save_data r pd = Inr r2"
    and "deserialize_b64 (f_part_of_data r) = Inr (PList xs)" and "length xs \<le> 200"
  shows "\<exists>ys. deserialize_b64 (f_part_of_data r2) = Inr (PList ys) \<and> length ys \<le> 200"
  using assms
  by (auto simp: save_data_def serialize_b64_def Let_def split: if_splits)

text \<open>The count block (lines 178 and 179) adds the argument, and does nothing for 0.\<close>

lemma save_count_adds: "f_count (save_count schema count) = f_count schema + count"
  by (simp add: save_count_def)


section \<open>The claims\<close>

text \<open>
  Claim C1: on an existing entry, \<^verbatim>\<open>save_schema(schema_data)\<close> overlays the supplied
  mapping onto the stored one, so that \<^verbatim>\<open>get_schema('schema')\<close> afterwards contains every
  supplied pair. On the code the call \<^verbatim>\<open>save_schema({'k': 'v'})\<close> on the example entry
  raises \<^verbatim>\<open>AttributeError\<close> on line 169, the catalog is left as it was, and
  \<^verbatim>\<open>get_schema('schema')\<close> still returns the empty mapping, without \<^verbatim>\<open>'k'\<close>.
\<close>

theorem save_schema_overlay_raises:
  "save_schema example_table (Some [(PStr ''k'', PStr ''v'')]) None 0 1 example_catalog
     = (Inl (AttributeError ''updata''), example_catalog)
   \<and> get_schema example_table ''schema''
        (snd (save_schema example_table (Some [(PStr ''k'', PStr ''v'')]) None 0 1
               example_catalog))
     = Inr (PDict [])"
  by (simp add: save_schema_existing_raises [OF example_select] example_select
      example_row_def get_schema_def get_schema_try_def)

text \<open>
  Claim C2: with a non-empty sample list and fewer than 200 stored entries, the first
  \<^verbatim>\<open>200 - current_length\<close> supplied entries are appended to the stored list and the
  merged list is stored. On the code the call \<^verbatim>\<open>save_schema(party_of_data=[2, 3])\<close> on
  the example entry, whose sample is \<^verbatim>\<open>[1]\<close>, raises on line 169 and the stored sample
  stays \<^verbatim>\<open>[1]\<close>; and the sample block by itself (lines 172 to 176) would store
  \<^verbatim>\<open>[2, 3]\<close>, the supplied list, not the merged list \<^verbatim>\<open>[1, 2, 3]\<close>.
\<close>

theorem save_schema_sample_not_merged:
  "save_schema example_table None (Some [PInt 2, PInt 3]) 0 1 example_catalog
     = (Inl (AttributeError ''updata''), example_catalog)
   \<and> map_option f_part_of_data
        (select_where example_table
          (snd (save_schema example_table None (Some [PInt 2, PInt 3]) 0 1 example_catalog)))
     = Some (Encoded (PList [PInt 1]))
   \<and> save_data example_row [PInt 2, PInt 3]
     = Inr (example_row\<lparr>f_part_of_data := Encoded (PList [PInt 2, PInt 3])\<rparr>)"
  by (simp add: save_schema_existing_raises [OF example_select] example_select
      example_row_def save_data_def serialize_b64_def)

text \<open>
  Claim C3: the stored count is cumulative, so \<^verbatim>\<open>save_schema(count=5)\<close> followed by
  \<^verbatim>\<open>save_schema(count=3)\<close> leaves the old count plus 8. On the code both calls on the
  example entry raise on line 169, before the addition of line 179, and the stored count
  stays 0.
\<close>

theorem save_schema_count_not_added:
  "save_schema example_table None None 5 1 example_catalog
     = (Inl (AttributeError ''updata''), example_catalog)
   \<and> save_schema example_table None None 3 2
        (snd (save_schema example_table None None 5 1 example_catalog))
     = (Inl (AttributeError ''updata''), example_catalog)
   \<and> map_option f_count
        (select_where example_table
          (save_schema_calls example_table [(None, None, 5, 1), (None, None, 3, 2)]
             example_catalog))
     = Some 0"
  by (simp add: save_schema_existing_raises [OF example_select] example_select
      example_row_def)

text \<open>
  Claim C4: when the stored sample of an entry is a list of at most 200 entries, it is
  still a list of at most 200 entries after any sequence of \<^verbatim>\<open>save_schema\<close> calls,
  whatever the calls supply.
\<close>

theorem save_schema_calls_sample_cap:
  assumes "select_where self db = Some r"
    and "deserialize_b64 (f_part_of_data r) = Inr (PList xs)"
    and "length xs \<le> 200"
  shows "\<exists>r' ys. select_where self (save_schema_calls self cs db) = Some r'
           \<and> deserialize_b64 (f_part_of_data r') = Inr (PList ys) \<and> length ys \<le> 200"
  using assms by (simp add: save_schema_calls_unchanged)

theorem save_schema_calls_sample_cap_witness:
  "select_where example_table example_catalog = Some example_row
   \<and> deserialize_b64 (f_part_of_data example_row) = Inr (PList [PInt 1])
   \<and> length [PInt 1] \<le> 200
   \<and> (\<exists>r' ys. select_where example_table
          (save_schema_calls example_table
             [(None, Some (replicate 150 (PInt 2)), 0, 1),
              (None, Some (replicate 150 (PInt 3)), 0, 2)]
             example_catalog) = Some r'
        \<and> deserialize_b64 (f_part_of_data r') = Inr (PList ys) \<and> length ys \<le> 200)"
proof -
  have h1: "select_where example_table example_catalog = Some example_row"
    by (rule example_select)
  have h2: "deserialize_b64 (f_part_of_data example_row) = Inr (PList [PInt 1])"
    by (simp add: example_row_def)
  have h3: "length [PInt 1] \<le> 200"
    by simp
  from save_schema_calls_sample_cap [OF h1 h2 h3] h1 h2 h3 show ?thesis
    by blast
qed

text \<open>
  Claim C5: without a catalog entry for the table, \<^verbatim>\<open>save_schema\<close> fails, with the
  exception of line 181, and creates no entry: the catalog is unchanged and still has
  none for the table.
\<close>

theorem save_schema_missing_entry:
  assumes "select_where self db = None"
  shows "save_schema self sd pd c now db =
           (Inl (Exception (''please create table '' @ self_namespace self @ '' ''
                             @ self_namespace self @ '' before useing'')), db)
         \<and> select_where self (snd (save_schema self sd pd c now db)) = None"
  using assms by (simp add: save_schema_def Let_def)

theorem save_schema_missing_entry_witness:
  "select_where example_table empty_catalog = None
   \<and> save_schema example_table (Some [(PStr ''k'', PStr ''v'')]) (Some [PInt 2]) 5 1
        empty_catalog =
       (Inl (Exception ''please create table ns ns before useing''), empty_catalog)
   \<and> select_where example_table
        (snd (save_schema example_table (Some [(PStr ''k'', PStr ''v'')]) (Some [PInt 2]) 5 1
               empty_catalog)) = None"
proof -
  have h: "select_where example_table empty_catalog = None"
    by (simp add: select_where_def empty_catalog_def)
  from save_schema_missing_entry
    [OF h, of "Some [(PStr ''k'', PStr ''v'')]" "Some [PInt 2]" 5 1] h
  show ?thesis
    by (simp add: example_table_def)
qed

text \<open>
  Claim C6: without a catalog entry for the table, \<^verbatim>\<open>get_schema\<close> returns the empty
  mapping \<^verbatim>\<open>{}\<close> for every kind argument, and returns it normally.
\<close>

theorem get_schema_missing_entry:
  assumes "select_where self db = None"
  shows "get_schema self type db = Inr (PDict [])"
  using assms by (simp add: get_schema_def)

theorem get_schema_missing_entry_witness:
  "select_where example_table empty_catalog = None
   \<and> get_schema example_table ''data'' empty_catalog = Inr (PDict [])"
proof -
  have h: "select_where example_table empty_catalog = None"
    by (simp add: select_where_def empty_catalog_def)
  from get_schema_missing_entry [OF h, of "''data''"] h show ?thesis
    by simp
qed

text \<open>
  Claim C7: when the schema blob (kind \<^verbatim>\<open>'schema'\<close>) or the sample blob (kind
  \<^verbatim>\<open>'data'\<close>) of the entry fails to decode, \<^verbatim>\<open>get_schema\<close> catches the failure and
  returns normally; the value returned is \<^verbatim>\<open>None\<close>, which is falsy.
\<close>

theorem get_schema_decode_failure:
  assumes "select_where self db = Some r"
    and "(type = ''schema'' \<and> deserialize_b64 (f_schema r) = Inl e)
         \<or> (type = ''data'' \<and> deserialize_b64 (f_part_of_data r) = Inl e)"
  shows "get_schema self type db = Inr PNone \<and> \<not> truthy PNone"
  using assms by (auto simp: get_schema_def get_schema_try_def)

theorem get_schema_decode_failure_witness:
  "select_where example_table corrupt_catalog = Some (example_row\<lparr>f_schema := Corrupt\<rparr>)
   \<and> deserialize_b64 (f_schema (example_row\<lparr>f_schema := Corrupt\<rparr>)) = Inl DecodeError
   \<and> get_schema example_table ''schema'' corrupt_catalog = Inr PNone"
proof -
  have h1: "select_where example_table corrupt_catalog
              = Some (example_row\<lparr>f_schema := Corrupt\<rparr>)"
    by (simp add: select_where_def example_table_def corrupt_catalog_def)
  have h2: "deserialize_b64 (f_schema (example_row\<lparr>f_schema := Corrupt\<rparr>)) = Inl DecodeError"
    by simp
  from get_schema_decode_failure [OF h1, of "''schema''" DecodeError] h1 h2 show ?thesis
    by simp
qed



text \<open>
  Claim C9: \<^verbatim>\<open>destroy_schema\<close> never propagates an error, whether the delete statement
  fails or not; when it does not fail, the entry of the table, and only that entry, is
  gone from the catalog; when it fails with \<open>e\<close>, the catalog is as before and one line
  with the namespace, the name and \<open>e\<close> is logged.
\<close>

theorem destroy_schema_swallows:
  "fst (destroy_schema self fault (db, log)) = Inr ()
   \<and> snd (destroy_schema self None (db, log))
       = (db((self_name self, self_namespace self) := None), log)
   \<and> select_where self (fst (snd (destroy_schema self None (db, log)))) = None
   \<and> snd (destroy_schema self (Some e) (db, log))
       = (db, log @ [(self_namespace self, self_name self, e)])"
  by (simp add: destroy_schema_def delete_where_def select_where_def split: option.splits)

text \<open>
  Claim C10: after a \<^verbatim>\<open>save_schema\<close> call on an existing entry the entry is still there,
  its sample blob is unchanged when the sample list was empty or omitted, its count is
  unchanged when the count argument was 0, and its schema blob is unchanged when the
  mapping was empty or omitted.
\<close>

theorem save_schema_frame:
  assumes "select_where self db = Some r"
  shows "\<exists>r'. select_where self (snd (save_schema self sd pd c now db)) = Some r'
           \<and> ((pd = None \<or> pd = Some []) \<longrightarrow> f_part_of_data r' = f_part_of_data r)
           \<and> (c = 0 \<longrightarrow> f_count r' = f_count r)
           \<and> ((sd = None \<or> sd = Some []) \<longrightarrow> f_schema r' = f_schema r)"
  using assms by (simp add: save_schema_catalog_unchanged)

theorem save_schema_frame_witness:
  "select_where example_table example_catalog = Some example_row
   \<and> (\<exists>r'. select_where example_table
               (snd (save_schema example_table None (Some []) 0 9 example_catalog)) = Some r'
         \<and> f_part_of_data r' = f_part_of_data example_row
         \<and> f_count r' = f_count example_row
         \<and> f_schema r' = f_schema example_row)"
proof -
  from save_schema_frame [OF example_select, of None "Some []" 0 9] example_select
  show ?thesis
    by simp
qed

end
